theory Spec2Isabelle
  imports Main "HOL-Library.AList" "HOL-Library.List_Lexorder" "HOL-Library.Char_ord"
begin

section \<open>Errors, panics and dynamic values\<close>

text \<open>
  A Go \<^verbatim>\<open>error\<close> is either an error handed back by a library outside the repository
  (the policy engine, the file system, the parser), kept as its message, or an error
  built by \<^verbatim>\<open>fmt.Errorf("<prefix>: %w", err)\<close>, which wraps another one.
\<close>

datatype error = Foreign string | Errorf string error

fun Error_msg :: "error \<Rightarrow> string" where
  "Error_msg (Foreign s) = s"
| "Error_msg (Errorf prefix e) = prefix @ '': '' @ Error_msg e"

text \<open>
  A call either returns, returns with a non-nil \<^verbatim>\<open>err\<close>, or panics (a failed type
  assertion, a nil dereference). A panic is not an \<^verbatim>\<open>err\<close>: no \<^verbatim>\<open>if err != nil\<close>
  sees it, it unwinds through every caller.
\<close>

datatype 'a outcome = Returns 'a | Fails error | Panics

text \<open>
  A value of type \<^verbatim>\<open>interface{}\<close> as the code inspects it: nil, a string, a
  \<^verbatim>\<open>[]interface{}\<close>, or a value of any other dynamic type.
\<close>

datatype val = Nil_val | String_val string | Array_val "val list" | Other_val

section \<open>The policy evaluator (package rego)\<close>

record Violation =
  Message :: string
  Severity :: string
  Policy :: string

record EvaluationResult =
  Violations :: "Violation list"
  Warnings :: "Violation list"
  PassCount :: int
  FailCount :: int
  WarnCount :: int

text \<open>
  \<^verbatim>\<open>ast.Module\<close> belongs to the policy engine. The code reads its \<^verbatim>\<open>Package.Path\<close>;
  the rules stay opaque.
\<close>

record 'r Module =
  Package_Path :: "string list"
  Rules :: 'r

text \<open>
  \<^verbatim>\<open>map[string]*ast.Module\<close>, keyed by file path, as an association list with
  distinct keys; \<^verbatim>\<open>e.modules[path] = module\<close> is \<^const>\<open>AList.update\<close>.
\<close>

type_synonym 'r modules = "(string \<times> 'r Module) list"

text \<open>
  The \<^verbatim>\<open>Evaluator\<close> struct. The field \<^verbatim>\<open>ctx\<close> is \<^verbatim>\<open>context.Background()\<close>, which
  carries nothing, and is left out.
\<close>

record ('r, 's) Evaluator =
  policyDirs :: "string list"
  modules :: "'r modules"
  store :: 's

text \<open>
  What the engine hands back: \<^verbatim>\<open>rego.ResultSet\<close> is a slice of \<^verbatim>\<open>rego.Result\<close>, each
  with its \<^verbatim>\<open>Expressions\<close>, each with a \<^verbatim>\<open>Value\<close>.
\<close>

record ExpressionValue =
  Value :: val

record Result =
  Expressions :: "ExpressionValue list"

type_synonym ResultSet = "Result list"

text \<open>
  The engine itself, \<^verbatim>\<open>rego.New(Query q, Store s, Modules m, Input i).Eval(ctx)\<close>, is a
  parameter of the model. The module map and the store are passed to it by reference,
  so it receives both and hands both back; whether it leaves them alone is a property
  of the engine, stated as \<open>read_only\<close> below.
\<close>

type_synonym ('r, 's, 'i) rego =
  "'r modules \<times> 's \<Rightarrow> string \<Rightarrow> 'i \<Rightarrow> (error + ResultSet) \<times> ('r modules \<times> 's)"

definition read_only :: "('r, 's, 'i) rego \<Rightarrow> bool" where
  "read_only Eval = (\<forall>sh q i. snd (Eval sh q i) = sh)"

definition shared :: "('r, 's) Evaluator \<Rightarrow> 'r modules \<times> 's" where
  "shared e = (modules e, store e)"

definition put_shared :: "'r modules \<times> 's \<Rightarrow> ('r, 's) Evaluator \<Rightarrow> ('r, 's) Evaluator" where
  "put_shared sh e = e\<lparr>modules := fst sh, store := snd sh\<rparr>"

text \<open>
  The loop \<^verbatim>\<open>for _, v := range xs.([]interface{}) { result.X = append(result.X,
  Violation{Message: v.(string), Severity: sev, Policy: packagePath}) }\<close>. The
  assertion \<^verbatim>\<open>v.(string)\<close> panics on a value that is not a string.
\<close>

fun append_findings :: "string \<Rightarrow> string \<Rightarrow> val list \<Rightarrow> Violation list \<Rightarrow> Violation list outcome" where
  "append_findings sev packagePath [] acc = Returns acc"
| "append_findings sev packagePath (v # vs) acc =
     (case v of
        String_val s \<Rightarrow>
          append_findings sev packagePath vs
            (acc @ [\<lparr>Message = s, Severity = sev, Policy = packagePath\<rparr>])
      | _ \<Rightarrow> Panics)"

text \<open>
  The block \<^verbatim>\<open>if len(rs) > 0 && len(rs[0].Expressions) > 0 { xs := rs[0].Expressions[0].Value;
  if xs != nil { for ... } }\<close>, which the code has once for the deny rules (severity
  ERROR) and once for the warn rules (severity WARNING). The assertion
  \<^verbatim>\<open>xs.([]interface{})\<close> panics on a value that is neither nil nor a slice.
\<close>

definition extract_findings :: "string \<Rightarrow> string \<Rightarrow> ResultSet \<Rightarrow> Violation list outcome" where
  "extract_findings sev packagePath rs =
     (case rs of
        [] \<Rightarrow> Returns []
      | r # _ \<Rightarrow>
          (case Expressions r of
             [] \<Rightarrow> Returns []
           | ev # _ \<Rightarrow>
               (case Value ev of
                  Nil_val \<Rightarrow> Returns []
                | Array_val vs \<Rightarrow> append_findings sev packagePath vs []
                | _ \<Rightarrow> Panics)))"

text \<open>
  \<^verbatim>\<open>Evaluator.Evaluate\<close>: three engine calls (the package, its deny rules, its warn
  rules), each of which may fail, then the two extractions. The evaluator comes back
  with whatever the engine did to the module map and the store; the code itself
  assigns to no field.
\<close>

definition Evaluate ::
  "('r, 's, 'i) rego \<Rightarrow> ('r, 's) Evaluator \<Rightarrow> string \<Rightarrow> 'i
     \<Rightarrow> EvaluationResult outcome \<times> ('r, 's) Evaluator" where
  "Evaluate Eval e packagePath input =
     (case Eval (shared e) (''data.'' @ packagePath) input of
        (Inl err, sh1) \<Rightarrow> (Fails (Errorf ''evaluation failed'' err), put_shared sh1 e)
      | (Inr rs, sh1) \<Rightarrow>
     (case Eval sh1 (''data.'' @ packagePath @ ''.deny'') input of
        (Inl err, sh2) \<Rightarrow> (Fails (Errorf ''deny rule evaluation failed'' err), put_shared sh2 e)
      | (Inr denyRs, sh2) \<Rightarrow>
     (case Eval sh2 (''data.'' @ packagePath @ ''.warn'') input of
        (Inl err, sh3) \<Rightarrow> (Fails (Errorf ''warning rule evaluation failed'' err), put_shared sh3 e)
      | (Inr warnRs, sh3) \<Rightarrow>
     (case extract_findings ''ERROR'' packagePath denyRs of
        Panics \<Rightarrow> (Panics, put_shared sh3 e)
      | Fails err \<Rightarrow> (Fails err, put_shared sh3 e)
      | Returns violations \<Rightarrow>
     (case extract_findings ''WARNING'' packagePath warnRs of
        Panics \<Rightarrow> (Panics, put_shared sh3 e)
      | Fails err \<Rightarrow> (Fails err, put_shared sh3 e)
      | Returns warnings \<Rightarrow>
          (Returns \<lparr>Violations = violations, Warnings = warnings, PassCount = 0,
                    FailCount = int (length violations), WarnCount = int (length warnings)\<rparr>,
           put_shared sh3 e))))))"

text \<open>\<^verbatim>\<open>strings.Join(elems, sep)\<close>.\<close>

fun Join :: "string list \<Rightarrow> string \<Rightarrow> string" where
  "Join [] sep = []"
| "Join [x] sep = x"
| "Join (x # y # ys) sep = x @ sep @ Join (y # ys) sep"

text \<open>
  The first loop of \<^verbatim>\<open>EvaluateAll\<close>: the set of package paths, as the map
  \<^verbatim>\<open>packagePaths map[string]bool\<close>.
\<close>

definition packagePaths :: "'r modules \<Rightarrow> (string \<times> bool) list" where
  "packagePaths ms = fold (\<lambda>(file, m). AList.update (Join (Package_Path m) ''.'') True) ms []"

text \<open>
  The second loop of \<^verbatim>\<open>EvaluateAll\<close>, over the package paths still to visit, with
  the results appended so far. The first error or panic ends the loop and the
  function. The last component lists the packages \<^verbatim>\<open>Evaluate\<close> was called on, in order.
\<close>

fun EvaluateAll_loop ::
  "('r, 's, 'i) rego \<Rightarrow> 'i \<Rightarrow> string list \<Rightarrow> ('r, 's) Evaluator \<Rightarrow> EvaluationResult list
     \<Rightarrow> string list \<Rightarrow> EvaluationResult list outcome \<times> ('r, 's) Evaluator \<times> string list" where
  "EvaluateAll_loop Eval input [] e results called = (Returns results, e, called)"
| "EvaluateAll_loop Eval input (packagePath # rest) e results called =
     (case Evaluate Eval e packagePath input of
        (Fails err, e') \<Rightarrow>
          (Fails (Errorf (''failed to evaluate package '' @ packagePath) err), e',
           called @ [packagePath])
      | (Panics, e') \<Rightarrow> (Panics, e', called @ [packagePath])
      | (Returns result, e') \<Rightarrow>
          EvaluateAll_loop Eval input rest e' (results @ [result]) (called @ [packagePath]))"

text \<open>
  \<^verbatim>\<open>Evaluator.EvaluateAll\<close>. Go visits the keys of a map in an order it does not
  specify, each key once; \<open>range_order\<close> is that order, a parameter.
\<close>

definition EvaluateAll ::
  "(string list \<Rightarrow> string list) \<Rightarrow> ('r, 's, 'i) rego \<Rightarrow> ('r, 's) Evaluator \<Rightarrow> 'i
     \<Rightarrow> EvaluationResult list outcome \<times> ('r, 's) Evaluator \<times> string list" where
  "EvaluateAll range_order Eval e input =
     EvaluateAll_loop Eval input (range_order (map fst (packagePaths (modules e)))) e [] []"

definition visits_each_key_once :: "(string list \<Rightarrow> string list) \<Rightarrow> bool" where
  "visits_each_key_once range_order =
     (\<forall>ks. distinct ks \<longrightarrow> distinct (range_order ks) \<and> set (range_order ks) = set ks)"

section \<open>Loading the policies\<close>

text \<open>
  What \<^verbatim>\<open>filepath.Walk\<close> hands to its callback for one file or directory: the path,
  whether \<^verbatim>\<open>info.IsDir()\<close>, and the error of reaching it, if any.
\<close>

record WalkEntry =
  path :: string
  isDir :: bool
  walkErr :: "error option"

text \<open>
  The world outside the loader: \<^verbatim>\<open>filepath.Walk\<close> (the entries under a root, in the
  order it visits them), \<^verbatim>\<open>os.ReadFile\<close> and \<^verbatim>\<open>ast.ParseModule\<close>.
\<close>

record 'r environment =
  Walk :: "string \<Rightarrow> WalkEntry list"
  ReadFile :: "string \<Rightarrow> error + string"
  ParseModule :: "string \<Rightarrow> string \<Rightarrow> error + 'r Module"

text \<open>\<^verbatim>\<open>strings.HasSuffix(s, suffix)\<close>.\<close>

definition HasSuffix :: "string \<Rightarrow> string \<Rightarrow> bool" where
  "HasSuffix s suffix =
     (length s \<ge> length suffix \<and> drop (length s - length suffix) s = suffix)"

text \<open>The callback \<^verbatim>\<open>loadPolicies\<close> gives to \<^verbatim>\<open>filepath.Walk\<close>, on the module map.\<close>

definition walkFn :: "'r environment \<Rightarrow> 'r modules \<Rightarrow> WalkEntry \<Rightarrow> error + 'r modules" where
  "walkFn env ms ent =
     (case walkErr ent of
        Some err \<Rightarrow> Inl err
      | None \<Rightarrow>
          if \<not> isDir ent \<and> HasSuffix (path ent) ''.rego'' then
            (case ReadFile env (path ent) of
               Inl err \<Rightarrow> Inl (Errorf (''failed to read policy file '' @ path ent) err)
             | Inr content \<Rightarrow>
                 (case ParseModule env (path ent) content of
                    Inl err \<Rightarrow> Inl (Errorf (''failed to parse policy file '' @ path ent) err)
                  | Inr m \<Rightarrow> Inr (AList.update (path ent) m ms)))
          else Inr ms)"

text \<open>
  \<^verbatim>\<open>filepath.Walk\<close> with this callback: the callback returns every error it is given
  or meets, and \<^verbatim>\<open>Walk\<close> stops at the first error its callback returns.
\<close>

fun Walk_with :: "'r environment \<Rightarrow> WalkEntry list \<Rightarrow> 'r modules \<Rightarrow> error + 'r modules" where
  "Walk_with env [] ms = Inr ms"
| "Walk_with env (ent # rest) ms =
     (case walkFn env ms ent of
        Inl err \<Rightarrow> Inl err
      | Inr ms' \<Rightarrow> Walk_with env rest ms')"

text \<open>The loop of \<^verbatim>\<open>loadPolicies\<close> over \<^verbatim>\<open>e.policyDirs\<close>.\<close>

fun loadPolicies_loop :: "'r environment \<Rightarrow> string list \<Rightarrow> 'r modules \<Rightarrow> error + 'r modules" where
  "loadPolicies_loop env [] ms = Inr ms"
| "loadPolicies_loop env (dir # dirs) ms =
     (case Walk_with env (Walk env dir) ms of
        Inl err \<Rightarrow> Inl (Errorf (''failed to load policies from '' @ dir) err)
      | Inr ms' \<Rightarrow> loadPolicies_loop env dirs ms')"

definition loadPolicies :: "'r environment \<Rightarrow> ('r, 's) Evaluator \<Rightarrow> error + ('r, 's) Evaluator" where
  "loadPolicies env e =
     (case loadPolicies_loop env (policyDirs e) (modules e) of
        Inl err \<Rightarrow> Inl err
      | Inr ms \<Rightarrow> Inr (e\<lparr>modules := ms\<rparr>))"

text \<open>\<^verbatim>\<open>NewEvaluator\<close>; \<open>inmem_New\<close> is the fresh store of \<^verbatim>\<open>inmem.New()\<close>.\<close>

definition NewEvaluator :: "'r environment \<Rightarrow> 's \<Rightarrow> string list \<Rightarrow> error + ('r, 's) Evaluator" where
  "NewEvaluator env inmem_New dirs =
     (case loadPolicies env \<lparr>policyDirs = dirs, modules = [], store = inmem_New\<rparr> of
        Inl err \<Rightarrow> Inl err
      | Inr e \<Rightarrow> Inr e)"

text \<open>
  A file \<^verbatim>\<open>loadPolicies\<close> would read (reached without error, not a directory, with the
  extension, readable) and whose content \<^verbatim>\<open>ast.ParseModule\<close> rejects with \<open>perr\<close>.
\<close>

definition fails_to_parse :: "'r environment \<Rightarrow> WalkEntry \<Rightarrow> error \<Rightarrow> bool" where
  "fails_to_parse env ent perr =
     (walkErr ent = None \<and> \<not> isDir ent \<and> HasSuffix (path ent) ''.rego'' \<and>
      (case ReadFile env (path ent) of
         Inl err \<Rightarrow> False
       | Inr content \<Rightarrow> ParseModule env (path ent) content = Inl perr))"

section \<open>The admission controller\<close>

record GroupVersionKind =
  Group :: string
  Version :: string
  Kind :: string

text \<open>
  \<^verbatim>\<open>admissionv1.AdmissionRequest\<close>, the fields the controller reads. \<^verbatim>\<open>Object.Raw\<close>,
  \<^verbatim>\<open>OldObject.Raw\<close> and \<^verbatim>\<open>Options\<close> are raw bytes. The field \<^verbatim>\<open>Kind\<close> is
  \<open>Request_Kind\<close> here, since \<^verbatim>\<open>Kind\<close> is also a field of \<^verbatim>\<open>GroupVersionKind\<close>.
\<close>

record AdmissionRequest =
  UID :: string
  Request_Kind :: GroupVersionKind
  Name :: string
  Namespace :: string
  Operation :: string
  Object_Raw :: string
  OldObject_Raw :: string
  Options :: string

text \<open>\<^verbatim>\<open>metav1.Status\<close>, of which the controller sets \<^verbatim>\<open>Message\<close>.\<close>

record Status =
  Status_Message :: string

text \<open>
  \<^verbatim>\<open>admissionv1.AdmissionResponse\<close>: \<^verbatim>\<open>UID\<close>, \<^verbatim>\<open>Allowed\<close> and the pointer \<^verbatim>\<open>Result\<close>
  (\<open>None\<close> is nil).
\<close>

record AdmissionResponse =
  Response_UID :: string
  Allowed :: bool
  Response_Result :: "Status option"

record TypeMeta =
  TypeMeta_Kind :: string
  APIVersion :: string

text \<open>\<^verbatim>\<open>admissionv1.AdmissionReview\<close>; \<^verbatim>\<open>Request\<close> and \<^verbatim>\<open>Response\<close> are pointers.\<close>

record AdmissionReview =
  Review_TypeMeta :: TypeMeta
  Request :: "AdmissionRequest option"
  Response :: "AdmissionResponse option"

text \<open>
  The input document \<^verbatim>\<open>map[string]interface{}\<close> of \<^verbatim>\<open>evaluateRequest\<close>: seven keys,
  each with a string or with raw bytes.
\<close>

datatype field = Text string | Bytes string

type_synonym input_doc = "(string \<times> field) list"

text \<open>
  \<^verbatim>\<open>strings.ToLower\<close> on the ASCII letters. (Go also lowers letters beyond ASCII;
  resource kinds are ASCII identifiers.)
\<close>

definition ToLower :: "string \<Rightarrow> string" where
  "ToLower s =
     map (\<lambda>c. if CHR ''A'' \<le> c \<and> c \<le> CHR ''Z'' then char_of (of_char c + (32::nat)) else c) s"

definition normalizeKind :: "string \<Rightarrow> string" where
  "normalizeKind kind = ToLower kind"

text \<open>
  The loop of \<^verbatim>\<open>evaluateRequest\<close> that builds \<^verbatim>\<open>reason\<close>: the index \<open>i\<close>, the reason so
  far, the violations still to visit.
\<close>

fun reason_loop :: "nat \<Rightarrow> string \<Rightarrow> Violation list \<Rightarrow> string" where
  "reason_loop i reason [] = reason"
| "reason_loop i reason (violation # rest) =
     reason_loop (Suc i)
       (if i = 0 then Message violation else reason @ ''; '' @ Message violation) rest"

text \<open>
  The two values \<^verbatim>\<open>evaluateRequest\<close> computes before it calls the evaluator: the
  input document and the package path.
\<close>

definition request_input :: "AdmissionRequest \<Rightarrow> input_doc" where
  "request_input request =
     [(''kind'', Text (Kind (Request_Kind request))),
      (''name'', Text (Name request)),
      (''namespace'', Text (Namespace request)),
      (''operation'', Text (Operation request)),
      (''object'', Bytes (Object_Raw request)),
      (''oldObject'', Bytes (OldObject_Raw request)),
      (''parameters'', Bytes (Options request))]"

definition request_packagePath :: "AdmissionRequest \<Rightarrow> string" where
  "request_packagePath request =
     ''kubernetes.admission.'' @ normalizeKind (Kind (Request_Kind request))"

text \<open>
  \<^verbatim>\<open>evaluateRequest\<close> returns \<^verbatim>\<open>(allowed, reason, err)\<close>; with a non-nil \<^verbatim>\<open>err\<close> the
  caller reads neither of the other two.
\<close>

definition evaluateRequest ::
  "('r, 's, input_doc) rego \<Rightarrow> ('r, 's) Evaluator \<Rightarrow> AdmissionRequest
     \<Rightarrow> (bool \<times> string) outcome \<times> ('r, 's) Evaluator" where
  "evaluateRequest Eval e request =
     (let input = request_input request;
          packagePath = request_packagePath request
      in case Evaluate Eval e packagePath input of
           (Fails err, e') \<Rightarrow> (Fails (Errorf ''policy evaluation failed'' err), e')
         | (Panics, e') \<Rightarrow> (Panics, e')
         | (Returns result, e') \<Rightarrow>
             if length (Violations result) > 0
             then (Returns (False, reason_loop 0 [] (Violations result)), e')
             else (Returns (True, []), e'))"

record ('r, 's) admissionController =
  evaluator :: "('r, 's) Evaluator"

text \<open>
  The HTTP request as the handler reads it: the value of \<^verbatim>\<open>r.Header.Get("Content-Type")\<close>
  and the bytes the handler holds in its variable \<^verbatim>\<open>body\<close> once it has read \<^verbatim>\<open>r.Body\<close>.
\<close>

record http_Request =
  Content_Type :: string
  Body :: string

text \<open>
  What the handler writes: \<^verbatim>\<open>http.Error(w, message, code)\<close>, or the JSON encoding of a
  review with the default status 200.
\<close>

datatype http_Response = Http_Error string nat | Http_Json AdmissionReview

text \<open>The calls the handler makes, in order.\<close>

datatype call = Decode_call string | evaluateRequest_call AdmissionRequest

text \<open>
  \<^verbatim>\<open>handleAdmissionRequest\<close>. \<open>Decode\<close> is \<^verbatim>\<open>deserializer.Decode\<close>, of the Kubernetes
  library. Reading \<^verbatim>\<open>reviewRequest.Request.UID\<close> panics when \<^verbatim>\<open>Request\<close> is nil. The
  result is what was written to the client, the controller after the call, and the
  calls made.
\<close>

definition handleAdmissionRequest ::
  "(string \<Rightarrow> error + AdmissionReview) \<Rightarrow> ('r, 's, input_doc) rego \<Rightarrow> ('r, 's) admissionController
     \<Rightarrow> http_Request \<Rightarrow> http_Response outcome \<times> ('r, 's) admissionController \<times> call list" where
  "handleAdmissionRequest Decode Eval ac r =
     (let body = Body r;
          contentType = Content_Type r
      in if contentType \<noteq> ''application/json''
         then (Returns (Http_Error ''Invalid Content-Type'' 415), ac, [])
         else
           (case Decode body of
              Inl err \<Rightarrow>
                (Returns (Http_Error ''Invalid AdmissionReview request'' 400), ac,
                 [Decode_call body])
            | Inr reviewRequest \<Rightarrow>
                (case Request reviewRequest of
                   None \<Rightarrow> (Panics, ac, [Decode_call body])
                 | Some request \<Rightarrow>
                     (let response = \<lparr>Response_UID = UID request, Allowed = False,
                                       Response_Result = None\<rparr>;
                          reviewResponse = \<lparr>Review_TypeMeta = Review_TypeMeta reviewRequest,
                                             Request = None, Response = Some response\<rparr>;
                          calls = [Decode_call body, evaluateRequest_call request]
                      in case evaluateRequest Eval (evaluator ac) request of
                           (Panics, e') \<Rightarrow> (Panics, ac\<lparr>evaluator := e'\<rparr>, calls)
                         | (Fails err, e') \<Rightarrow>
                             (Returns (Http_Json (reviewResponse\<lparr>Response := Some (response
                                \<lparr>Allowed := False,
                                 Response_Result := Some \<lparr>Status_Message =
                                   ''Error evaluating request: '' @ Error_msg err\<rparr>\<rparr>)\<rparr>)),
                              ac\<lparr>evaluator := e'\<rparr>, calls)
                         | (Returns (allowed, reason), e') \<Rightarrow>
                             (Returns (Http_Json (reviewResponse\<lparr>Response := Some (response
                                \<lparr>Allowed := allowed,
                                 Response_Result :=
                                   (if \<not> allowed then Some \<lparr>Status_Message = reason\<rparr>
                                    else None)\<rparr>)\<rparr>)),
                              ac\<lparr>evaluator := e'\<rparr>, calls)))))"

text \<open>The \<^verbatim>\<open>response\<close> of the review the handler wrote, if it wrote one.\<close>

definition written_response :: "http_Response outcome \<Rightarrow> AdmissionResponse option" where
  "written_response out =
     (case out of
        Returns (Http_Json review) \<Rightarrow> Response review
      | _ \<Rightarrow> None)"

section \<open>The message the specification asks for\<close>

text \<open>
  The specification's deny message: the violation messages sorted lexically, then
  joined with \<^verbatim>\<open>"; "\<close>.
\<close>

definition spec_sorted_reason :: "Violation list \<Rightarrow> string" where
  "spec_sorted_reason violations = Join (sort (map Message violations)) ''; ''"

section \<open>A sample engine, policy set and requests\<close>

text \<open>
  A small engine to run the model on. The rules of a sample module are the values of
  its deny and warn collections, or a runtime error every query of the package meets.
  A query that no module answers is undefined: the result set is empty.
\<close>

datatype sample_rules = Sample_rules val val | Sample_raise string

definition one_value :: "val \<Rightarrow> ResultSet" where
  "one_value v = [\<lparr>Expressions = [\<lparr>Value = v\<rparr>]\<rparr>]"

definition sample_answer :: "sample_rules Module \<Rightarrow> string \<Rightarrow> (error + ResultSet) option" where
  "sample_answer m query =
     (let p = ''data.'' @ Join (Package_Path m) ''.''
      in case Rules m of
           Sample_raise msg \<Rightarrow>
             if query = p \<or> query = p @ ''.deny'' \<or> query = p @ ''.warn''
             then Some (Inl (Foreign msg)) else None
         | Sample_rules deny warn \<Rightarrow>
             if query = p then Some (Inr (one_value Other_val))
             else if query = p @ ''.deny'' then Some (Inr (one_value deny))
             else if query = p @ ''.warn'' then Some (Inr (one_value warn))
             else None)"

fun sample_lookup :: "sample_rules modules \<Rightarrow> string \<Rightarrow> error + ResultSet" where
  "sample_lookup [] query = Inr []"
| "sample_lookup ((file, m) # ms) query =
     (case sample_answer m query of
        Some answer \<Rightarrow> answer
      | None \<Rightarrow> sample_lookup ms query)"

definition sample_Eval :: "(sample_rules, nat, 'i) rego" where
  "sample_Eval sh query input = (sample_lookup (fst sh) query, sh)"

definition sample_modules :: "sample_rules modules" where
  "sample_modules =
     [(''policies/kubernetes/pod.rego'',
       \<lparr>Package_Path = [''kubernetes'', ''admission'', ''pod''],
        Rules = Sample_rules (Array_val [String_val ''b'', String_val ''a''])
                             (Array_val [String_val ''w''])\<rparr>),
      (''policies/kubernetes/service.rego'',
       \<lparr>Package_Path = [''kubernetes'', ''admission'', ''service''],
        Rules = Sample_rules (Array_val []) (Array_val [String_val ''w''])\<rparr>),
      (''policies/kubernetes/secret.rego'',
       \<lparr>Package_Path = [''kubernetes'', ''admission'', ''secret''],
        Rules = Sample_raise ''eval_internal_error''\<rparr>),
      (''policies/kubernetes/job.rego'',
       \<lparr>Package_Path = [''kubernetes'', ''admission'', ''job''],
        Rules = Sample_rules (Array_val []) (Array_val [])\<rparr>)]"

definition sample_evaluator :: "(sample_rules, nat) Evaluator" where
  "sample_evaluator =
     \<lparr>policyDirs = [''policies/kubernetes''], modules = sample_modules, store = 0\<rparr>"

definition sample_controller :: "(sample_rules, nat) admissionController" where
  "sample_controller = \<lparr>evaluator = sample_evaluator\<rparr>"

definition sample_request :: "string \<Rightarrow> AdmissionRequest" where
  "sample_request kind =
     \<lparr>UID = ''abc-123'',
      Request_Kind = \<lparr>Group = [], Version = ''v1'', Kind = kind\<rparr>,
      Name = ''web'', Namespace = ''default'', Operation = ''CREATE'',
      Object_Raw = ''{}'', OldObject_Raw = [], Options = []\<rparr>"

text \<open>
  A sample decoder: the body is just the kind of the resource; an empty body does
  not decode.
\<close>

definition sample_review :: "string \<Rightarrow> AdmissionReview" where
  "sample_review kind =
     \<lparr>Review_TypeMeta = \<lparr>TypeMeta_Kind = ''AdmissionReview'',
                          APIVersion = ''admission.k8s.io/v1''\<rparr>,
      Request = Some (sample_request kind), Response = None\<rparr>"

definition sample_Decode :: "string \<Rightarrow> error + AdmissionReview" where
  "sample_Decode body =
     (if body = [] then Inl (Foreign ''unexpected end of JSON input'')
      else Inr (sample_review body))"

definition sample_post :: "string \<Rightarrow> http_Request" where
  "sample_post body = \<lparr>Content_Type = ''application/json'', Body = body\<rparr>"

text \<open>
  A sample file system: one root with a policy that parses, one with a good policy, a
  broken one and a third behind it. Any other root does not exist.
\<close>

definition sample_Walk :: "string \<Rightarrow> WalkEntry list" where
  "sample_Walk dir =
     (if dir = ''policies/kubernetes'' then
        [\<lparr>path = ''policies/kubernetes'', isDir = True, walkErr = None\<rparr>,
         \<lparr>path = ''policies/kubernetes/README.md'', isDir = False, walkErr = None\<rparr>,
         \<lparr>path = ''policies/kubernetes/pod.rego'', isDir = False, walkErr = None\<rparr>]
      else if dir = ''policies/gcp'' then
        [\<lparr>path = ''policies/gcp'', isDir = True, walkErr = None\<rparr>,
         \<lparr>path = ''policies/gcp/iam.rego'', isDir = False, walkErr = None\<rparr>,
         \<lparr>path = ''policies/gcp/broken.rego'', isDir = False, walkErr = None\<rparr>,
         \<lparr>path = ''policies/gcp/storage.rego'', isDir = False, walkErr = None\<rparr>]
      else [\<lparr>path = dir, isDir = False,
             walkErr = Some (Foreign ''no such file or directory'')\<rparr>])"

definition sample_ReadFile :: "string \<Rightarrow> error + string" where
  "sample_ReadFile file =
     (if file = ''policies/kubernetes/pod.rego'' then Inr ''package kubernetes.admission.pod''
      else if file = ''policies/gcp/iam.rego'' then Inr ''package gcp.iam''
      else if file = ''policies/gcp/broken.rego'' then Inr ''package gcp.iam deny[msg] {''
      else if file = ''policies/gcp/storage.rego'' then Inr ''package gcp.iam''
      else Inl (Foreign ''permission denied''))"

definition sample_ParseModule :: "string \<Rightarrow> string \<Rightarrow> error + sample_rules Module" where
  "sample_ParseModule file content =
     (if content = ''package kubernetes.admission.pod'' then
        Inr \<lparr>Package_Path = [''kubernetes'', ''admission'', ''pod''],
             Rules = Sample_rules (Array_val []) (Array_val [])\<rparr>
      else if content = ''package gcp.iam'' then
        Inr \<lparr>Package_Path = [''gcp'', ''iam''],
             Rules = Sample_rules (Array_val []) (Array_val [])\<rparr>
      else Inl (Foreign ''rego_parse_error: unexpected eof token''))"

definition sample_environment :: "sample_rules environment" where
  "sample_environment =
     \<lparr>Walk = sample_Walk, ReadFile = sample_ReadFile, ParseModule = sample_ParseModule\<rparr>"

text \<open>The sample policy set without the module that raises.\<close>

definition sound_evaluator :: "(sample_rules, nat) Evaluator" where
  "sound_evaluator =
     sample_evaluator\<lparr>modules :=
       filter (\<lambda>(file, m). file \<noteq> ''policies/kubernetes/secret.rego'') sample_modules\<rparr>"

text \<open>A map iteration that happens to visit the keys in the order they were added.\<close>

definition in_key_order :: "string list \<Rightarrow> string list" where
  "in_key_order ks = ks"

section \<open>Two calls that see the same policies\<close>

text \<open>
  The specification's equality of findings "as sets". Two values the engine hands back
  have the same members when both are slices with the same set of elements, or when
  they are equal; two result sets agree when they have the same shape and their values
  have the same members; two answers of the engine agree when both are the same error
  or both are result sets that agree.
\<close>

definition same_members :: "val \<Rightarrow> val \<Rightarrow> bool" where
  "same_members v w =
     (case (v, w) of
        (Array_val xs, Array_val ys) \<Rightarrow> set xs = set ys
      | _ \<Rightarrow> v = w)"

definition results_agree :: "ResultSet \<Rightarrow> ResultSet \<Rightarrow> bool" where
  "results_agree rs rs' =
     list_all2 (\<lambda>r r'. list_all2 (\<lambda>x x'. same_members (Value x) (Value x'))
                            (Expressions r) (Expressions r')) rs rs'"

definition answers_agree :: "error + ResultSet \<Rightarrow> error + ResultSet \<Rightarrow> bool" where
  "answers_agree a a' =
     (case (a, a') of
        (Inl err, Inl err') \<Rightarrow> err = err'
      | (Inr rs, Inr rs') \<Rightarrow> results_agree rs rs'
      | _ \<Rightarrow> False)"

text \<open>
  The engine as it answers a first call and the engine as it answers a second call are
  two parameters. On a fixed module map, store and input they agree when they answer
  every query with the same error or with the same findings, in whatever order each
  of them lists the members of a rule collection.
\<close>

definition engines_agree ::
  "('r, 's, 'i) rego \<Rightarrow> ('r, 's, 'i) rego \<Rightarrow> 'r modules \<times> 's \<Rightarrow> 'i \<Rightarrow> bool" where
  "engines_agree Eval Eval' sh input =
     (\<forall>query. answers_agree (fst (Eval sh query input)) (fst (Eval' sh query input)))"

text \<open>
  Two outcomes of \<^verbatim>\<open>Evaluate\<close> with equal violation sets and equal warning sets: both
  results, with the same set of violations and the same set of warnings, or both the
  same error, or both a panic.
\<close>

definition same_findings :: "EvaluationResult outcome \<Rightarrow> EvaluationResult outcome \<Rightarrow> bool" where
  "same_findings out out' =
     (case (out, out') of
        (Returns r, Returns r') \<Rightarrow>
          set (Violations r) = set (Violations r') \<and> set (Warnings r) = set (Warnings r')
      | (Fails err, Fails err') \<Rightarrow> err = err'
      | (Panics, Panics) \<Rightarrow> True
      | _ \<Rightarrow> False)"

text \<open>
  A second sample engine: it answers as the first one does, but lists the members of
  every rule collection in the opposite order.
\<close>

definition reversed_value :: "val \<Rightarrow> val" where
  "reversed_value v = (case v of Array_val xs \<Rightarrow> Array_val (rev xs) | _ \<Rightarrow> v)"

definition reversed_answer :: "error + ResultSet \<Rightarrow> error + ResultSet" where
  "reversed_answer a =
     (case a of
        Inl err \<Rightarrow> Inl err
      | Inr rs \<Rightarrow>
          Inr (map (\<lambda>r. \<lparr>Expressions =
                     map (\<lambda>x. \<lparr>Value = reversed_value (Value x)\<rparr>) (Expressions r)\<rparr>) rs))"

definition reversed_Eval :: "(sample_rules, nat, 'i) rego" where
  "reversed_Eval sh query input = (reversed_answer (sample_lookup (fst sh) query), sh)"

section \<open>The evaluator leaves its state alone\<close>

lemma Evaluate_read_only:
  assumes "read_only Eval"
  shows "snd (Evaluate Eval e packagePath input) = e"
proof -
  have ro: "\<And>sh q a b. Eval sh q input = (a, b) \<Longrightarrow> b = sh"
    using assms unfolding read_only_def by (metis snd_conv)
  have ps: "put_shared (shared e) e = e"
    by (simp add: put_shared_def shared_def)
  show ?thesis
    by (auto simp: Evaluate_def ps split: sum.splits outcome.splits prod.splits dest!: ro)
qed

lemma read_only_sample_Eval: "read_only sample_Eval"
  by (simp add: read_only_def sample_Eval_def)

text \<open>
  Claim C9: calling \<^verbatim>\<open>Evaluate\<close> never mutates the evaluator: after any call, for every
  package path and input, the module map and the store are what they were before.
  \<^verbatim>\<open>Evaluate\<close> assigns to no field and hands the map and the store only to the engine,
  so this holds for every engine that only reads them.
\<close>

theorem Evaluate_no_mutation:
  "read_only Eval \<Longrightarrow>
     modules (snd (Evaluate Eval e packagePath input)) = modules e \<and>
     store (snd (Evaluate Eval e packagePath input)) = store e \<and>
     snd (Evaluate Eval e packagePath input) = e"
  by (simp add: Evaluate_read_only)

theorem Evaluate_no_mutation_witness:
  "read_only (sample_Eval :: (sample_rules, nat, input_doc) rego) \<and>
   modules (snd (Evaluate sample_Eval sample_evaluator ''kubernetes.admission.pod''
                   (request_input (sample_request ''Pod'')))) = sample_modules \<and>
   store (snd (Evaluate sample_Eval sample_evaluator ''kubernetes.admission.pod''
                 (request_input (sample_request ''Pod'')))) = 0"
  using Evaluate_no_mutation [OF read_only_sample_Eval, of sample_evaluator
      "''kubernetes.admission.pod''" "request_input (sample_request ''Pod'')"]
  by (simp add: read_only_sample_Eval sample_evaluator_def)

section \<open>Two calls give the same findings\<close>

lemma append_findings_panics:
  "\<exists>v\<in>set vs. \<forall>s. v \<noteq> String_val s \<Longrightarrow> append_findings sev p vs acc = Panics"
proof (induction vs arbitrary: acc)
  case Nil
  then show ?case by simp
next
  case (Cons v vs)
  then show ?case by (cases v) auto
qed

lemma append_findings_returns:
  "\<forall>v\<in>set vs. \<exists>s. v = String_val s \<Longrightarrow>
     \<exists>out. append_findings sev p vs acc = Returns out \<and>
       set out = set acc \<union> {\<lparr>Message = s, Severity = sev, Policy = p\<rparr> | s. String_val s \<in> set vs}"
proof (induction vs arbitrary: acc)
  case Nil
  then show ?case by simp
next
  case (Cons v vs)
  then obtain s where v: "v = String_val s" by auto
  from Cons.prems have "\<forall>v\<in>set vs. \<exists>s. v = String_val s" by simp
  from Cons.IH [OF this, of "acc @ [\<lparr>Message = s, Severity = sev, Policy = p\<rparr>]"]
  obtain out where out:
    "append_findings sev p vs (acc @ [\<lparr>Message = s, Severity = sev, Policy = p\<rparr>]) = Returns out"
    "set out = set (acc @ [\<lparr>Message = s, Severity = sev, Policy = p\<rparr>]) \<union>
       {\<lparr>Message = s, Severity = sev, Policy = p\<rparr> | s. String_val s \<in> set vs}"
    by blast
  have "append_findings sev p (v # vs) acc = Returns out"
    using v out(1) by simp
  moreover have "set out = set acc \<union>
      {\<lparr>Message = s, Severity = sev, Policy = p\<rparr> | s. String_val s \<in> set (v # vs)}"
    using out(2) v by auto
  ultimately show ?case by blast
qed

text \<open>Two outcomes of an extraction that list the same findings.\<close>

lemma append_findings_same_set:
  assumes "set xs = set ys"
  shows "(append_findings sev p xs [] = Panics \<and> append_findings sev p ys [] = Panics) \<or>
         (\<exists>out out'. append_findings sev p xs [] = Returns out \<and>
            append_findings sev p ys [] = Returns out' \<and> set out = set out')"
proof (cases "\<exists>v\<in>set xs. \<forall>s. v \<noteq> String_val s")
  case True
  then have "\<exists>v\<in>set ys. \<forall>s. v \<noteq> String_val s" using assms by simp
  with True show ?thesis by (simp add: append_findings_panics)
next
  case False
  then have x: "\<forall>v\<in>set xs. \<exists>s. v = String_val s" by blast
  then have y: "\<forall>v\<in>set ys. \<exists>s. v = String_val s" using assms by simp
  from append_findings_returns [OF x, of sev p "[]"] append_findings_returns [OF y, of sev p "[]"]
  show ?thesis using assms by auto
qed

lemma extract_findings_agree:
  assumes "results_agree rs rs'"
  shows "(extract_findings sev p rs = Panics \<and> extract_findings sev p rs' = Panics) \<or>
         (\<exists>out out'. extract_findings sev p rs = Returns out \<and>
            extract_findings sev p rs' = Returns out' \<and> set out = set out')"
proof (cases rs)
  case Nil
  with assms have "rs' = []" by (simp add: results_agree_def)
  with Nil show ?thesis by (simp add: extract_findings_def)
next
  case (Cons r rest)
  with assms obtain r' rest' where rs': "rs' = r' # rest'"
    and ex: "list_all2 (\<lambda>x x'. same_members (Value x) (Value x')) (Expressions r) (Expressions r')"
    by (auto simp: results_agree_def list_all2_Cons1)
  show ?thesis
  proof (cases "Expressions r")
    case Nil
    with ex have "Expressions r' = []" by simp
    with Nil Cons rs' show ?thesis by (simp add: extract_findings_def)
  next
    case (Cons x xs)
    with ex obtain x' xs' where e': "Expressions r' = x' # xs'"
      and sm: "same_members (Value x) (Value x')"
      by (auto simp: list_all2_Cons1)
    show ?thesis
    proof (cases "Value x")
      case (Array_val vs)
      with sm obtain vs' where v': "Value x' = Array_val vs'" and eq: "set vs = set vs'"
        by (cases "Value x'") (simp_all add: same_members_def)
      from append_findings_same_set [OF eq, of sev p]
      show ?thesis
        using \<open>rs = r # rest\<close> rs' Cons e' Array_val v' by (simp add: extract_findings_def)
    next
      case Nil_val
      with sm have "Value x' = Nil_val" by (simp add: same_members_def)
      with Nil_val \<open>rs = r # rest\<close> rs' Cons e' show ?thesis by (simp add: extract_findings_def)
    next
      case (String_val s)
      with sm have "Value x' = String_val s" by (simp add: same_members_def)
      with String_val \<open>rs = r # rest\<close> rs' Cons e' show ?thesis by (simp add: extract_findings_def)
    next
      case Other_val
      with sm have "Value x' = Other_val" by (simp add: same_members_def)
      with Other_val \<open>rs = r # rest\<close> rs' Cons e' show ?thesis by (simp add: extract_findings_def)
    qed
  qed
qed

lemma Evaluate_by_answers:
  assumes "Eval (shared e) (''data.'' @ p) input = (a1, shared e)"
    and "Eval (shared e) (''data.'' @ p @ ''.deny'') input = (a2, shared e)"
    and "Eval (shared e) (''data.'' @ p @ ''.warn'') input = (a3, shared e)"
  shows "fst (Evaluate Eval e p input) =
     (case a1 of
        Inl err \<Rightarrow> Fails (Errorf ''evaluation failed'' err)
      | Inr rs \<Rightarrow>
     (case a2 of
        Inl err \<Rightarrow> Fails (Errorf ''deny rule evaluation failed'' err)
      | Inr denyRs \<Rightarrow>
     (case a3 of
        Inl err \<Rightarrow> Fails (Errorf ''warning rule evaluation failed'' err)
      | Inr warnRs \<Rightarrow>
     (case extract_findings ''ERROR'' p denyRs of
        Panics \<Rightarrow> Panics
      | Fails err \<Rightarrow> Fails err
      | Returns violations \<Rightarrow>
     (case extract_findings ''WARNING'' p warnRs of
        Panics \<Rightarrow> Panics
      | Fails err \<Rightarrow> Fails err
      | Returns warnings \<Rightarrow>
          Returns \<lparr>Violations = violations, Warnings = warnings, PassCount = 0,
                   FailCount = int (length violations), WarnCount = int (length warnings)\<rparr>)))))"
  using assms unfolding Evaluate_def by (simp split: sum.splits outcome.splits)


text \<open>
  Claim C8: for a fixed set of loaded modules and a fixed input, two calls to
  \<^verbatim>\<open>Evaluate\<close> with the same package path, one after the other, return equal violation
  sets and equal warning sets. The engine is outside the repository, so its part is a
  hypothesis: it only reads the module map and the store, and at the second call it
  answers each query as at the first, up to the order in which it lists the members
  of a rule collection. \<^verbatim>\<open>Evaluate\<close> then adds no difference of its own: both calls
  return results with the same set of violations and the same set of warnings, or
  both the same error, or both panic.
\<close>

theorem Evaluate_repeatable:
  assumes "read_only Eval" and "read_only Eval'"
    and "engines_agree Eval Eval' (shared e) input"
  shows "same_findings (fst (Evaluate Eval e packagePath input))
           (fst (Evaluate Eval' (snd (Evaluate Eval e packagePath input)) packagePath input))"
proof -
  let ?q1 = "''data.'' @ packagePath"
  let ?q2 = "''data.'' @ packagePath @ ''.deny''"
  let ?q3 = "''data.'' @ packagePath @ ''.warn''"
  have ro: "\<And>q. Eval (shared e) q input = (fst (Eval (shared e) q input), shared e)"
    using assms(1) unfolding read_only_def by (metis prod.collapse)
  have ro': "\<And>q. Eval' (shared e) q input = (fst (Eval' (shared e) q input), shared e)"
    using assms(2) unfolding read_only_def by (metis prod.collapse)
  have ag: "\<And>q. answers_agree (fst (Eval (shared e) q input)) (fst (Eval' (shared e) q input))"
    using assms(3) unfolding engines_agree_def by blast
  obtain a1 a2 a3 where a:
    "a1 = fst (Eval (shared e) ?q1 input)" "a2 = fst (Eval (shared e) ?q2 input)"
    "a3 = fst (Eval (shared e) ?q3 input)"
    by blast
  obtain b1 b2 b3 where b:
    "b1 = fst (Eval' (shared e) ?q1 input)" "b2 = fst (Eval' (shared e) ?q2 input)"
    "b3 = fst (Eval' (shared e) ?q3 input)"
    by blast
  have first: "fst (Evaluate Eval e packagePath input) =
     (case a1 of
        Inl err \<Rightarrow> Fails (Errorf ''evaluation failed'' err)
      | Inr rs \<Rightarrow>
     (case a2 of
        Inl err \<Rightarrow> Fails (Errorf ''deny rule evaluation failed'' err)
      | Inr denyRs \<Rightarrow>
     (case a3 of
        Inl err \<Rightarrow> Fails (Errorf ''warning rule evaluation failed'' err)
      | Inr warnRs \<Rightarrow>
     (case extract_findings ''ERROR'' packagePath denyRs of
        Panics \<Rightarrow> Panics
      | Fails err \<Rightarrow> Fails err
      | Returns violations \<Rightarrow>
     (case extract_findings ''WARNING'' packagePath warnRs of
        Panics \<Rightarrow> Panics
      | Fails err \<Rightarrow> Fails err
      | Returns warnings \<Rightarrow>
          Returns \<lparr>Violations = violations, Warnings = warnings, PassCount = 0,
                   FailCount = int (length violations), WarnCount = int (length warnings)\<rparr>)))))"
    unfolding a
    by (rule Evaluate_by_answers [where Eval = Eval and e = e and p = packagePath
          and input = input, OF ro [of ?q1] ro [of ?q2] ro [of ?q3]])
  have second: "fst (Evaluate Eval' e packagePath input) =
     (case b1 of
        Inl err \<Rightarrow> Fails (Errorf ''evaluation failed'' err)
      | Inr rs \<Rightarrow>
     (case b2 of
        Inl err \<Rightarrow> Fails (Errorf ''deny rule evaluation failed'' err)
      | Inr denyRs \<Rightarrow>
     (case b3 of
        Inl err \<Rightarrow> Fails (Errorf ''warning rule evaluation failed'' err)
      | Inr warnRs \<Rightarrow>
     (case extract_findings ''ERROR'' packagePath denyRs of
        Panics \<Rightarrow> Panics
      | Fails err \<Rightarrow> Fails err
      | Returns violations \<Rightarrow>
     (case extract_findings ''WARNING'' packagePath warnRs of
        Panics \<Rightarrow> Panics
      | Fails err \<Rightarrow> Fails err
      | Returns warnings \<Rightarrow>
          Returns \<lparr>Violations = violations, Warnings = warnings, PassCount = 0,
                   FailCount = int (length violations), WarnCount = int (length warnings)\<rparr>)))))"
    unfolding b
    by (rule Evaluate_by_answers [where Eval = Eval' and e = e and p = packagePath
          and input = input, OF ro' [of ?q1] ro' [of ?q2] ro' [of ?q3]])
  have g: "answers_agree a1 b1" "answers_agree a2 b2" "answers_agree a3 b3"
    unfolding a b by (rule ag)+
  have same: "same_findings (fst (Evaluate Eval e packagePath input))
                (fst (Evaluate Eval' e packagePath input))"
  proof (cases a1)
    case (Inl err)
    with g(1) have "b1 = Inl err" by (cases b1) (simp_all add: answers_agree_def)
    with Inl first second show ?thesis by (simp add: same_findings_def)
  next
    case rs: (Inr rs)
    with g(1) obtain rs' where rs': "b1 = Inr rs'" by (cases b1) (simp_all add: answers_agree_def)
    show ?thesis
    proof (cases a2)
      case (Inl err)
      with g(2) have "b2 = Inl err" by (cases b2) (simp_all add: answers_agree_def)
      with Inl rs rs' first second show ?thesis by (simp add: same_findings_def)
    next
      case d: (Inr denyRs)
      with g(2) obtain denyRs' where d': "b2 = Inr denyRs'" and da: "results_agree denyRs denyRs'"
        by (cases b2) (simp_all add: answers_agree_def)
      show ?thesis
      proof (cases a3)
        case (Inl err)
        with g(3) have "b3 = Inl err" by (cases b3) (simp_all add: answers_agree_def)
        with Inl rs rs' d d' first second show ?thesis by (simp add: same_findings_def)
      next
        case w: (Inr warnRs)
        with g(3) obtain warnRs' where w': "b3 = Inr warnRs'" and wa: "results_agree warnRs warnRs'"
          by (cases b3) (simp_all add: answers_agree_def)
        from extract_findings_agree [OF da, of "''ERROR''" packagePath]
          extract_findings_agree [OF wa, of "''WARNING''" packagePath]
        show ?thesis
          unfolding first second rs rs' d d' w w'
          by (auto simp: same_findings_def)
      qed
    qed
  qed
  then show ?thesis
    by (simp add: Evaluate_read_only [OF assms(1)])
qed

lemma same_members_reversed: "same_members v (reversed_value v)"
  by (cases v) (simp_all add: same_members_def reversed_value_def)

lemma answers_agree_reversed: "answers_agree a (reversed_answer a)"
proof (cases a)
  case (Inl err)
  then show ?thesis by (simp add: answers_agree_def reversed_answer_def)
next
  case (Inr rs)
  have "results_agree rs
          (map (\<lambda>r. \<lparr>Expressions =
                     map (\<lambda>x. \<lparr>Value = reversed_value (Value x)\<rparr>) (Expressions r)\<rparr>) rs)"
    unfolding results_agree_def
    by (simp add: list_all2_map2 list_all2_same same_members_reversed)
  with Inr show ?thesis by (simp add: answers_agree_def reversed_answer_def)
qed

lemma engines_agree_reversed: "engines_agree sample_Eval reversed_Eval sh input"
  by (simp add: engines_agree_def sample_Eval_def reversed_Eval_def answers_agree_reversed)

lemma read_only_reversed_Eval: "read_only reversed_Eval"
  by (simp add: read_only_def reversed_Eval_def)

theorem Evaluate_repeatable_witness:
  "fst (Evaluate sample_Eval sample_evaluator ''kubernetes.admission.pod'' ()) =
     Returns \<lparr>Violations =
         [\<lparr>Message = ''b'', Severity = ''ERROR'', Policy = ''kubernetes.admission.pod''\<rparr>,
          \<lparr>Message = ''a'', Severity = ''ERROR'', Policy = ''kubernetes.admission.pod''\<rparr>],
       Warnings = [\<lparr>Message = ''w'', Severity = ''WARNING'',
                    Policy = ''kubernetes.admission.pod''\<rparr>],
       PassCount = 0, FailCount = 2, WarnCount = 1\<rparr> \<and>
   fst (Evaluate reversed_Eval sample_evaluator ''kubernetes.admission.pod'' ()) =
     Returns \<lparr>Violations =
         [\<lparr>Message = ''a'', Severity = ''ERROR'', Policy = ''kubernetes.admission.pod''\<rparr>,
          \<lparr>Message = ''b'', Severity = ''ERROR'', Policy = ''kubernetes.admission.pod''\<rparr>],
       Warnings = [\<lparr>Message = ''w'', Severity = ''WARNING'',
                    Policy = ''kubernetes.admission.pod''\<rparr>],
       PassCount = 0, FailCount = 2, WarnCount = 1\<rparr> \<and>
   same_findings
     (fst (Evaluate sample_Eval sample_evaluator ''kubernetes.admission.pod'' ()))
     (fst (Evaluate reversed_Eval
             (snd (Evaluate sample_Eval sample_evaluator ''kubernetes.admission.pod'' ()))
             ''kubernetes.admission.pod'' ()))"
proof -
  have first: "fst (Evaluate sample_Eval sample_evaluator ''kubernetes.admission.pod'' ()) =
     Returns \<lparr>Violations =
         [\<lparr>Message = ''b'', Severity = ''ERROR'', Policy = ''kubernetes.admission.pod''\<rparr>,
          \<lparr>Message = ''a'', Severity = ''ERROR'', Policy = ''kubernetes.admission.pod''\<rparr>],
       Warnings = [\<lparr>Message = ''w'', Severity = ''WARNING'',
                    Policy = ''kubernetes.admission.pod''\<rparr>],
       PassCount = 0, FailCount = 2, WarnCount = 1\<rparr>"
    by code_simp
  have second: "fst (Evaluate reversed_Eval sample_evaluator ''kubernetes.admission.pod'' ()) =
     Returns \<lparr>Violations =
         [\<lparr>Message = ''a'', Severity = ''ERROR'', Policy = ''kubernetes.admission.pod''\<rparr>,
          \<lparr>Message = ''b'', Severity = ''ERROR'', Policy = ''kubernetes.admission.pod''\<rparr>],
       Warnings = [\<lparr>Message = ''w'', Severity = ''WARNING'',
                    Policy = ''kubernetes.admission.pod''\<rparr>],
       PassCount = 0, FailCount = 2, WarnCount = 1\<rparr>"
    by code_simp
  have same: "same_findings
     (fst (Evaluate sample_Eval sample_evaluator ''kubernetes.admission.pod'' ()))
     (fst (Evaluate reversed_Eval
             (snd (Evaluate sample_Eval sample_evaluator ''kubernetes.admission.pod'' ()))
             ''kubernetes.admission.pod'' ()))"
    using Evaluate_repeatable [where Eval = sample_Eval and Eval' = reversed_Eval
        and e = sample_evaluator and packagePath = "''kubernetes.admission.pod''"
        and input = "()", OF read_only_sample_Eval read_only_reversed_Eval
        engines_agree_reversed] .
  from first second same show ?thesis by blast
qed


section \<open>A package that no module declares\<close>

text \<open>
  Claim C3, as the code has it: when the engine finds the package, its deny rules and
  its warn rules undefined (an empty result set for each of the three queries, which
  is its answer for a package no loaded module declares), \<^verbatim>\<open>Evaluate\<close> returns no
  error but the result with no violation, no warning and every count zero. The result
  has no field that says whether the package was resolved.
\<close>

theorem Evaluate_unresolved_package:
  assumes "read_only Eval"
    and "fst (Eval (shared e) (''data.'' @ packagePath) input) = Inr []"
    and "fst (Eval (shared e) (''data.'' @ packagePath @ ''.deny'') input) = Inr []"
    and "fst (Eval (shared e) (''data.'' @ packagePath @ ''.warn'') input) = Inr []"
  shows "Evaluate Eval e packagePath input =
           (Returns \<lparr>Violations = [], Warnings = [], PassCount = 0, FailCount = 0,
                     WarnCount = 0\<rparr>, e)"
proof -
  have ro: "\<And>sh q. snd (Eval sh q input) = sh"
    using assms(1) unfolding read_only_def by blast
  have ps: "put_shared (shared e) e = e"
    by (simp add: put_shared_def shared_def)
  have "Eval (shared e) (''data.'' @ packagePath) input = (Inr [], shared e)"
    and "Eval (shared e) (''data.'' @ packagePath @ ''.deny'') input = (Inr [], shared e)"
    and "Eval (shared e) (''data.'' @ packagePath @ ''.warn'') input = (Inr [], shared e)"
    using assms(2-4) ro by (metis prod.collapse)+
  then show ?thesis
    unfolding Evaluate_def by (simp add: extract_findings_def ps)
qed

theorem Evaluate_unresolved_package_witness:
  "Evaluate sample_Eval sample_evaluator ''kubernetes.admission.ingress'' () =
     (Returns \<lparr>Violations = [], Warnings = [], PassCount = 0, FailCount = 0, WarnCount = 0\<rparr>,
      sample_evaluator)"
proof -
  have 1: "fst (sample_Eval (shared sample_evaluator)
             (''data.'' @ ''kubernetes.admission.ingress'') ()) = Inr []"
    by code_simp
  have 2: "fst (sample_Eval (shared sample_evaluator)
             (''data.'' @ ''kubernetes.admission.ingress'' @ ''.deny'') ()) = Inr []"
    by code_simp
  have 3: "fst (sample_Eval (shared sample_evaluator)
             (''data.'' @ ''kubernetes.admission.ingress'' @ ''.warn'') ()) = Inr []"
    by code_simp
  show ?thesis
    using Evaluate_unresolved_package [where Eval = sample_Eval and e = sample_evaluator
        and packagePath = "''kubernetes.admission.ingress''" and input = "()",
        OF read_only_sample_Eval 1 2 3] .
qed

text \<open>
  Against claim C3 as stated: no sample module declares the package
  \<^verbatim>\<open>kubernetes.admission.ingress\<close>, one declares \<^verbatim>\<open>kubernetes.admission.job\<close> and has no
  finding, and \<^verbatim>\<open>Evaluate\<close> returns the same result for both: nothing in it tells the
  unresolved package from the resolved one.
\<close>

theorem unresolved_flag_counterexample:
  "''kubernetes.admission.ingress'' \<notin> set (map fst (packagePaths sample_modules)) \<and>
   ''kubernetes.admission.job'' \<in> set (map fst (packagePaths sample_modules)) \<and>
   fst (Evaluate sample_Eval sample_evaluator ''kubernetes.admission.ingress'' ()) =
   fst (Evaluate sample_Eval sample_evaluator ''kubernetes.admission.job'' ())"
  by code_simp

section \<open>The admission decision\<close>

lemma handle_decoded:
  assumes "Content_Type r = ''application/json''"
    and "Decode (Body r) = Inr review"
    and "Request review = Some request"
    and "Evaluate Eval (evaluator ac) (request_packagePath request) (request_input request) = (out, e')"
  shows "written_response (fst (handleAdmissionRequest Decode Eval ac r)) =
     (case out of
        Panics \<Rightarrow> None
      | Fails err \<Rightarrow>
          Some \<lparr>Response_UID = UID request, Allowed = False,
                Response_Result = Some \<lparr>Status_Message =
                  ''Error evaluating request: policy evaluation failed: '' @ Error_msg err\<rparr>\<rparr>
      | Returns result \<Rightarrow>
          if Violations result = []
          then Some \<lparr>Response_UID = UID request, Allowed = True, Response_Result = None\<rparr>
          else Some \<lparr>Response_UID = UID request, Allowed = False,
                     Response_Result = Some \<lparr>Status_Message =
                       reason_loop 0 [] (Violations result)\<rparr>\<rparr>)"
  using assms
  by (simp add: handleAdmissionRequest_def evaluateRequest_def written_response_def Let_def
      split: outcome.splits)

lemma Join_glue:
  "Join ((a @ sep @ b) # xs) sep = a @ sep @ Join (b # xs) sep"
  by (cases xs) simp_all

lemma reason_loop_Join:
  "reason_loop (Suc i) reason vs = Join (reason # map Message vs) ''; ''"
proof (induction vs arbitrary: i reason)
  case Nil
  show ?case by simp
next
  case (Cons v vs)
  have "reason_loop (Suc i) reason (v # vs) =
          Join ((reason @ ''; '' @ Message v) # map Message vs) ''; ''"
    using Cons.IH [of "Suc i"] by simp
  also have "\<dots> = reason @ ''; '' @ Join (Message v # map Message vs) ''; ''"
    by (rule Join_glue)
  finally show ?case by simp
qed

lemma reason_loop_0:
  "vs \<noteq> [] \<Longrightarrow> reason_loop 0 reason vs = Join (map Message vs) ''; ''"
  by (cases vs) (simp_all add: reason_loop_Join)


text \<open>
  Claim C1: for every admission request the gateway decodes, the response carries the
  UID of the request, whether the decision is allowed or not. (The handler writes a
  response unless the evaluation panics on an ill-typed rule value.)
\<close>

theorem response_echoes_uid:
  assumes "Content_Type r = ''application/json''"
    and "Decode (Body r) = Inr review"
    and "Request review = Some request"
    and "fst (Evaluate Eval (evaluator ac) (request_packagePath request) (request_input request))
           \<noteq> Panics"
  shows "\<exists>response. written_response (fst (handleAdmissionRequest Decode Eval ac r)) = Some response
           \<and> Response_UID response = UID request"
proof -
  obtain out e' where ev:
    "Evaluate Eval (evaluator ac) (request_packagePath request) (request_input request) = (out, e')"
    by (cases "Evaluate Eval (evaluator ac) (request_packagePath request) (request_input request)")
  with assms(4) have "out \<noteq> Panics" by simp
  then show ?thesis
    by (cases out) (simp_all add: handle_decoded [where Decode = Decode and r = r, OF assms(1-3) ev])
qed

text \<open>
  Claim C2: for every decoded admission request, if the evaluator returns an error,
  the response has \<^verbatim>\<open>allowed == false\<close> and a status message that describes the failure;
  an evaluation failure never gives an allowed response.
\<close>

theorem evaluation_error_fails_closed:
  assumes "Content_Type r = ''application/json''"
    and "Decode (Body r) = Inr review"
    and "Request review = Some request"
    and "fst (Evaluate Eval (evaluator ac) (request_packagePath request) (request_input request))
           = Fails err"
  shows "written_response (fst (handleAdmissionRequest Decode Eval ac r)) =
           Some \<lparr>Response_UID = UID request, Allowed = False,
                 Response_Result = Some \<lparr>Status_Message =
                   ''Error evaluating request: policy evaluation failed: '' @ Error_msg err\<rparr>\<rparr>"
proof -
  obtain e' where
    "Evaluate Eval (evaluator ac) (request_packagePath request) (request_input request) = (Fails err, e')"
    using assms(4)
    by (cases "Evaluate Eval (evaluator ac) (request_packagePath request) (request_input request)") simp
  from handle_decoded [where Decode = Decode and r = r, OF assms(1-3) this] show ?thesis by simp
qed

text \<open>
  Claim C5: for every decoded admission request whose evaluation returns no violation,
  the decision is allowed, with no message, whatever the warnings are.
\<close>

theorem no_violations_allowed:
  assumes "Content_Type r = ''application/json''"
    and "Decode (Body r) = Inr review"
    and "Request review = Some request"
    and "fst (Evaluate Eval (evaluator ac) (request_packagePath request) (request_input request))
           = Returns result"
    and "Violations result = []"
  shows "written_response (fst (handleAdmissionRequest Decode Eval ac r)) =
           Some \<lparr>Response_UID = UID request, Allowed = True, Response_Result = None\<rparr>"
proof -
  obtain e' where
    "Evaluate Eval (evaluator ac) (request_packagePath request) (request_input request) = (Returns result, e')"
    using assms(4)
    by (cases "Evaluate Eval (evaluator ac) (request_packagePath request) (request_input request)") simp
  from handle_decoded [where Decode = Decode and r = r, OF assms(1-3) this] assms(5) show ?thesis by simp
qed

text \<open>
  Claim C4, as the code has it: for every evaluation that returns at least one
  violation, the gateway responds not-allowed, with the violation messages joined with
  \<^verbatim>\<open>"; "\<close> in the order in which the evaluator returned them. No sort is applied.
\<close>

theorem violations_denied_in_evaluator_order:
  assumes "Content_Type r = ''application/json''"
    and "Decode (Body r) = Inr review"
    and "Request review = Some request"
    and "fst (Evaluate Eval (evaluator ac) (request_packagePath request) (request_input request))
           = Returns result"
    and "Violations result \<noteq> []"
  shows "written_response (fst (handleAdmissionRequest Decode Eval ac r)) =
           Some \<lparr>Response_UID = UID request, Allowed = False,
                 Response_Result = Some \<lparr>Status_Message =
                   Join (map Message (Violations result)) ''; ''\<rparr>\<rparr>"
proof -
  obtain e' where
    "Evaluate Eval (evaluator ac) (request_packagePath request) (request_input request) = (Returns result, e')"
    using assms(4)
    by (cases "Evaluate Eval (evaluator ac) (request_packagePath request) (request_input request)") simp
  from handle_decoded [where Decode = Decode and r = r, OF assms(1-3) this] assms(5) show ?thesis
    by (simp add: reason_loop_0)
qed

text \<open>
  Claim C10: for every request whose \<^verbatim>\<open>Content-Type\<close> header is not exactly
  \<^verbatim>\<open>application/json\<close>, the handler answers 415 Unsupported Media Type, having
  decoded nothing and evaluated no policy.
\<close>

theorem wrong_content_type_rejected:
  "Content_Type r \<noteq> ''application/json'' \<Longrightarrow>
     handleAdmissionRequest Decode Eval ac r =
       (Returns (Http_Error ''Invalid Content-Type'' 415), ac, [])"
  by (simp add: handleAdmissionRequest_def)


lemma sample_post_facts:
  "Content_Type (sample_post body) = ''application/json''"
  "body \<noteq> [] \<Longrightarrow> sample_Decode (Body (sample_post body)) = Inr (sample_review body)"
  "Request (sample_review body) = Some (sample_request body)"
  by (simp_all add: sample_post_def sample_Decode_def sample_review_def)

theorem response_echoes_uid_witness:
  "map_option Allowed (written_response (fst (handleAdmissionRequest sample_Decode sample_Eval
        sample_controller (sample_post ''Pod'')))) = Some False \<and>
   (\<exists>response. written_response (fst (handleAdmissionRequest sample_Decode sample_Eval
        sample_controller (sample_post ''Pod''))) = Some response
      \<and> Response_UID response = ''abc-123'') \<and>
   map_option Allowed (written_response (fst (handleAdmissionRequest sample_Decode sample_Eval
        sample_controller (sample_post ''Service'')))) = Some True \<and>
   (\<exists>response. written_response (fst (handleAdmissionRequest sample_Decode sample_Eval
        sample_controller (sample_post ''Service''))) = Some response
      \<and> Response_UID response = ''abc-123'')"
proof -
  have uid: "\<And>kind. UID (sample_request kind) = ''abc-123''"
    by (simp add: sample_request_def)
  have pod: "fst (Evaluate sample_Eval (evaluator sample_controller)
               (request_packagePath (sample_request ''Pod''))
               (request_input (sample_request ''Pod''))) \<noteq> Panics"
    by code_simp
  have service: "fst (Evaluate sample_Eval (evaluator sample_controller)
               (request_packagePath (sample_request ''Service''))
               (request_input (sample_request ''Service''))) \<noteq> Panics"
    by code_simp
  have denied: "map_option Allowed (written_response (fst (handleAdmissionRequest sample_Decode
        sample_Eval sample_controller (sample_post ''Pod'')))) = Some False"
    by code_simp
  have allowed: "map_option Allowed (written_response (fst (handleAdmissionRequest sample_Decode
        sample_Eval sample_controller (sample_post ''Service'')))) = Some True"
    by code_simp
  have 1: "\<exists>response. written_response (fst (handleAdmissionRequest sample_Decode sample_Eval
        sample_controller (sample_post ''Pod''))) = Some response
      \<and> Response_UID response = ''abc-123''"
    using response_echoes_uid [where r = "sample_post ''Pod''" and Decode = sample_Decode
      and review = "sample_review ''Pod''" and request = "sample_request ''Pod''"
      and Eval = sample_Eval and ac = sample_controller,
      OF sample_post_facts(1) sample_post_facts(2) sample_post_facts(3) pod]
    by (simp add: uid)
  have 2: "\<exists>response. written_response (fst (handleAdmissionRequest sample_Decode sample_Eval
        sample_controller (sample_post ''Service''))) = Some response
      \<and> Response_UID response = ''abc-123''"
    using response_echoes_uid [where r = "sample_post ''Service''" and Decode = sample_Decode
      and review = "sample_review ''Service''" and request = "sample_request ''Service''"
      and Eval = sample_Eval and ac = sample_controller,
      OF sample_post_facts(1) sample_post_facts(2) sample_post_facts(3) service]
    by (simp add: uid)
  from denied 1 allowed 2 show ?thesis by blast
qed

theorem evaluation_error_fails_closed_witness:
  "written_response (fst (handleAdmissionRequest sample_Decode sample_Eval sample_controller
      (sample_post ''Secret''))) =
     Some \<lparr>Response_UID = ''abc-123'', Allowed = False,
           Response_Result = Some \<lparr>Status_Message =
             ''Error evaluating request: policy evaluation failed: evaluation failed: eval_internal_error''\<rparr>\<rparr>"
proof -
  have ev: "fst (Evaluate sample_Eval (evaluator sample_controller)
               (request_packagePath (sample_request ''Secret''))
               (request_input (sample_request ''Secret''))) =
             Fails (Errorf ''evaluation failed'' (Foreign ''eval_internal_error''))"
    by code_simp
  from evaluation_error_fails_closed [where r = "sample_post ''Secret''" and Decode = sample_Decode
      and review = "sample_review ''Secret''" and request = "sample_request ''Secret''"
      and Eval = sample_Eval and ac = sample_controller,
      OF sample_post_facts(1) sample_post_facts(2) sample_post_facts(3) ev]
  show ?thesis by (simp add: sample_request_def)
qed

theorem no_violations_allowed_witness:
  "Warnings \<lparr>Violations = [],
      Warnings = [\<lparr>Message = ''w'', Severity = ''WARNING'',
                   Policy = ''kubernetes.admission.service''\<rparr>],
      PassCount = 0, FailCount = 0, WarnCount = 1\<rparr> \<noteq> [] \<and>
   written_response (fst (handleAdmissionRequest sample_Decode sample_Eval sample_controller
      (sample_post ''Service''))) =
     Some \<lparr>Response_UID = ''abc-123'', Allowed = True, Response_Result = None\<rparr>"
proof -
  have ev: "fst (Evaluate sample_Eval (evaluator sample_controller)
               (request_packagePath (sample_request ''Service''))
               (request_input (sample_request ''Service''))) =
             Returns \<lparr>Violations = [],
               Warnings = [\<lparr>Message = ''w'', Severity = ''WARNING'',
                            Policy = ''kubernetes.admission.service''\<rparr>],
               PassCount = 0, FailCount = 0, WarnCount = 1\<rparr>"
    by code_simp
  from no_violations_allowed [where r = "sample_post ''Service''" and Decode = sample_Decode
      and review = "sample_review ''Service''" and request = "sample_request ''Service''"
      and Eval = sample_Eval and ac = sample_controller,
      OF sample_post_facts(1) sample_post_facts(2) sample_post_facts(3) ev]
  show ?thesis by (simp add: sample_request_def)
qed

theorem violations_denied_in_evaluator_order_witness:
  "written_response (fst (handleAdmissionRequest sample_Decode sample_Eval sample_controller
      (sample_post ''Pod''))) =
     Some \<lparr>Response_UID = ''abc-123'', Allowed = False,
           Response_Result = Some \<lparr>Status_Message = ''b; a''\<rparr>\<rparr>"
proof -
  have ev: "fst (Evaluate sample_Eval (evaluator sample_controller)
               (request_packagePath (sample_request ''Pod''))
               (request_input (sample_request ''Pod''))) =
             Returns \<lparr>Violations =
                 [\<lparr>Message = ''b'', Severity = ''ERROR'', Policy = ''kubernetes.admission.pod''\<rparr>,
                  \<lparr>Message = ''a'', Severity = ''ERROR'', Policy = ''kubernetes.admission.pod''\<rparr>],
               Warnings = [\<lparr>Message = ''w'', Severity = ''WARNING'',
                            Policy = ''kubernetes.admission.pod''\<rparr>],
               PassCount = 0, FailCount = 2, WarnCount = 1\<rparr>"
    by code_simp
  from violations_denied_in_evaluator_order [where r = "sample_post ''Pod''" and Decode = sample_Decode
      and review = "sample_review ''Pod''" and request = "sample_request ''Pod''"
      and Eval = sample_Eval and ac = sample_controller,
      OF sample_post_facts(1) sample_post_facts(2) sample_post_facts(3) ev]
  show ?thesis by (simp add: sample_request_def)
qed

text \<open>
  Against claim C4 as stated: the sample pod policy returns the violations \<^verbatim>\<open>b\<close>, \<^verbatim>\<open>a\<close>
  in this order; sorted and joined they are \<^verbatim>\<open>a; b\<close>, and the gateway answers \<^verbatim>\<open>b; a\<close>.
\<close>

theorem sorted_reason_counterexample:
  "fst (Evaluate sample_Eval sample_evaluator ''kubernetes.admission.pod''
          (request_input (sample_request ''Pod''))) =
     Returns \<lparr>Violations =
         [\<lparr>Message = ''b'', Severity = ''ERROR'', Policy = ''kubernetes.admission.pod''\<rparr>,
          \<lparr>Message = ''a'', Severity = ''ERROR'', Policy = ''kubernetes.admission.pod''\<rparr>],
       Warnings = [\<lparr>Message = ''w'', Severity = ''WARNING'',
                    Policy = ''kubernetes.admission.pod''\<rparr>],
       PassCount = 0, FailCount = 2, WarnCount = 1\<rparr> \<and>
   spec_sorted_reason
     [\<lparr>Message = ''b'', Severity = ''ERROR'', Policy = ''kubernetes.admission.pod''\<rparr>,
      \<lparr>Message = ''a'', Severity = ''ERROR'', Policy = ''kubernetes.admission.pod''\<rparr>] = ''a; b'' \<and>
   written_response (fst (handleAdmissionRequest sample_Decode sample_Eval sample_controller
      (sample_post ''Pod''))) =
     Some \<lparr>Response_UID = ''abc-123'', Allowed = False,
           Response_Result = Some \<lparr>Status_Message = ''b; a''\<rparr>\<rparr>"
  by code_simp

theorem wrong_content_type_rejected_witness:
  "''application/json; charset=utf-8'' \<noteq> ''application/json'' \<and>
   handleAdmissionRequest sample_Decode sample_Eval sample_controller
     \<lparr>Content_Type = ''application/json; charset=utf-8'', Body = ''Pod''\<rparr> =
       (Returns (Http_Error ''Invalid Content-Type'' 415), sample_controller, [])"
proof -
  have ct: "Content_Type \<lparr>Content_Type = ''application/json; charset=utf-8'', Body = ''Pod''\<rparr>
              \<noteq> ''application/json''"
    by simp
  from wrong_content_type_rejected [where r = "\<lparr>Content_Type = ''application/json; charset=utf-8'',
      Body = ''Pod''\<rparr>" and Decode = sample_Decode and Eval = sample_Eval
      and ac = sample_controller, OF ct]
  show ?thesis by simp
qed


section \<open>Loading aborts on a file that does not parse\<close>

lemma walkFn_isl_indep: "isl (walkFn env ms ent) = isl (walkFn env ms' ent)"
  by (simp add: walkFn_def split: option.splits sum.splits)

lemma walkFn_fails_to_parse:
  "fails_to_parse env ent perr \<Longrightarrow>
     walkFn env ms ent = Inl (Errorf (''failed to parse policy file '' @ path ent) perr)"
  by (auto simp: fails_to_parse_def walkFn_def split: sum.splits)

lemma Walk_with_fails:
  "x \<in> set ents \<Longrightarrow> isl (walkFn env [] x) \<Longrightarrow> isl (Walk_with env ents ms)"
proof (induction ents arbitrary: ms)
  case Nil
  then show ?case by simp
next
  case (Cons ent rest)
  show ?case
  proof (cases "walkFn env ms ent")
    case (Inl err)
    then show ?thesis by simp
  next
    case (Inr ms')
    then have "\<not> isl (walkFn env [] ent)"
      using walkFn_isl_indep [of env ms ent "[]"] by simp
    with Cons.prems have "x \<in> set rest" by auto
    with Cons.IH Cons.prems(2) Inr show ?thesis by simp
  qed
qed

lemma loadPolicies_loop_fails:
  "dir \<in> set dirs \<Longrightarrow> x \<in> set (Walk env dir) \<Longrightarrow> isl (walkFn env [] x) \<Longrightarrow>
     isl (loadPolicies_loop env dirs ms)"
proof (induction dirs arbitrary: ms)
  case Nil
  then show ?case by simp
next
  case (Cons d rest)
  show ?case
  proof (cases "Walk_with env (Walk env d) ms")
    case (Inl err)
    then show ?thesis by simp
  next
    case (Inr ms')
    have "dir \<noteq> d"
    proof
      assume "dir = d"
      with Cons.prems have "isl (Walk_with env (Walk env d) ms)"
        using Walk_with_fails by blast
      with Inr show False by simp
    qed
    with Cons.prems have "dir \<in> set rest" by simp
    with Cons.IH Cons.prems(2,3) Inr show ?thesis by simp
  qed
qed

lemma Walk_with_ok_prefix:
  "\<forall>x\<in>set pre. \<not> isl (walkFn env [] x) \<Longrightarrow>
     \<exists>ms'. Walk_with env (pre @ rest) ms = Walk_with env rest ms'"
proof (induction pre arbitrary: ms)
  case Nil
  then show ?case by auto
next
  case (Cons ent pre)
  then have "\<not> isl (walkFn env ms ent)"
    using walkFn_isl_indep [of env ms ent "[]"] by simp
  then obtain ms1 where "walkFn env ms ent = Inr ms1"
    by (cases "walkFn env ms ent") auto
  with Cons show ?case by simp
qed

lemma Walk_with_all_ok:
  "\<forall>x\<in>set ents. \<not> isl (walkFn env [] x) \<Longrightarrow> \<exists>ms'. Walk_with env ents ms = Inr ms'"
  using Walk_with_ok_prefix [of ents env "[]" ms] by simp

lemma loadPolicies_loop_ok_prefix:
  "\<forall>d\<in>set before. \<forall>x\<in>set (Walk env d). \<not> isl (walkFn env [] x) \<Longrightarrow>
     \<exists>ms'. loadPolicies_loop env (before @ rest) ms = loadPolicies_loop env rest ms'"
proof (induction before arbitrary: ms)
  case Nil
  then show ?case by auto
next
  case (Cons d before)
  then obtain ms1 where "Walk_with env (Walk env d) ms = Inr ms1"
    using Walk_with_all_ok [of "Walk env d" env ms] by auto
  with Cons show ?case by simp
qed

text \<open>
  Claim C6: for every list of root directories, if a policy file with the extension
  \<^verbatim>\<open>.rego\<close> fails to parse, the load is aborted: \<^verbatim>\<open>NewEvaluator\<close> returns an error and
  no evaluator, whatever else is under the roots. When the loader reaches the file
  (nothing before it in the walk fails), the error names the directory and the file
  and carries the parser's error.
\<close>

theorem parse_failure_aborts_load:
  assumes "dirs = before @ dir # after"
    and "Walk env dir = pre @ ent # post"
    and "fails_to_parse env ent perr"
  shows "isl (NewEvaluator env inmem_New dirs) \<and>
         ((\<forall>d\<in>set before. \<forall>x\<in>set (Walk env d). \<not> isl (walkFn env [] x)) \<and>
          (\<forall>x\<in>set pre. \<not> isl (walkFn env [] x)) \<longrightarrow>
          NewEvaluator env inmem_New dirs =
            Inl (Errorf (''failed to load policies from '' @ dir)
                   (Errorf (''failed to parse policy file '' @ path ent) perr)))"
proof
  have bad: "walkFn env [] ent = Inl (Errorf (''failed to parse policy file '' @ path ent) perr)"
    using assms(3) by (rule walkFn_fails_to_parse)
  have "isl (loadPolicies_loop env dirs [])"
    using loadPolicies_loop_fails [of dir dirs ent env "[]"] assms(1,2) bad by simp
  then show "isl (NewEvaluator env inmem_New dirs)"
    by (cases "loadPolicies_loop env dirs []") (simp_all add: NewEvaluator_def loadPolicies_def)
next
  show "(\<forall>d\<in>set before. \<forall>x\<in>set (Walk env d). \<not> isl (walkFn env [] x)) \<and>
          (\<forall>x\<in>set pre. \<not> isl (walkFn env [] x)) \<longrightarrow>
          NewEvaluator env inmem_New dirs =
            Inl (Errorf (''failed to load policies from '' @ dir)
                   (Errorf (''failed to parse policy file '' @ path ent) perr))"
  proof
    assume ok: "(\<forall>d\<in>set before. \<forall>x\<in>set (Walk env d). \<not> isl (walkFn env [] x)) \<and>
          (\<forall>x\<in>set pre. \<not> isl (walkFn env [] x))"
    obtain ms1 where 1: "loadPolicies_loop env dirs [] = loadPolicies_loop env (dir # after) ms1"
      using loadPolicies_loop_ok_prefix [of before env "dir # after" "[]"] ok assms(1) by auto
    obtain ms2 where 2: "Walk_with env (Walk env dir) ms1 = Walk_with env (ent # post) ms2"
      using Walk_with_ok_prefix [of pre env "ent # post" ms1] ok assms(2) by auto
    have "Walk_with env (ent # post) ms2 =
            Inl (Errorf (''failed to parse policy file '' @ path ent) perr)"
      using walkFn_fails_to_parse [OF assms(3), of ms2] by simp
    with 1 2 have "loadPolicies_loop env dirs [] =
        Inl (Errorf (''failed to load policies from '' @ dir)
               (Errorf (''failed to parse policy file '' @ path ent) perr))"
      by simp
    then show "NewEvaluator env inmem_New dirs =
            Inl (Errorf (''failed to load policies from '' @ dir)
                   (Errorf (''failed to parse policy file '' @ path ent) perr))"
      by (simp add: NewEvaluator_def loadPolicies_def)
  qed
qed


theorem parse_failure_aborts_load_witness:
  "NewEvaluator sample_environment (0::nat) [''policies/kubernetes'', ''policies/gcp''] =
     Inl (Errorf ''failed to load policies from policies/gcp''
            (Errorf ''failed to parse policy file policies/gcp/broken.rego''
               (Foreign ''rego_parse_error: unexpected eof token'')))"
proof -
  have 1: "[''policies/kubernetes'', ''policies/gcp''] =
             [''policies/kubernetes''] @ ''policies/gcp'' # []"
    by simp
  have 2: "Walk sample_environment ''policies/gcp'' =
             [\<lparr>path = ''policies/gcp'', isDir = True, walkErr = None\<rparr>,
              \<lparr>path = ''policies/gcp/iam.rego'', isDir = False, walkErr = None\<rparr>] @
             \<lparr>path = ''policies/gcp/broken.rego'', isDir = False, walkErr = None\<rparr> #
             [\<lparr>path = ''policies/gcp/storage.rego'', isDir = False, walkErr = None\<rparr>]"
    by code_simp
  have 3: "fails_to_parse sample_environment
             \<lparr>path = ''policies/gcp/broken.rego'', isDir = False, walkErr = None\<rparr>
             (Foreign ''rego_parse_error: unexpected eof token'')"
    by code_simp
  have 4: "\<forall>d\<in>set [''policies/kubernetes'']. \<forall>x\<in>set (Walk sample_environment d).
             \<not> isl (walkFn sample_environment [] x)"
    by code_simp
  have 5: "\<forall>x\<in>set [\<lparr>path = ''policies/gcp'', isDir = True, walkErr = None\<rparr>,
              \<lparr>path = ''policies/gcp/iam.rego'', isDir = False, walkErr = None\<rparr>].
             \<not> isl (walkFn sample_environment [] x)"
    by code_simp
  from parse_failure_aborts_load [where env = sample_environment and inmem_New = "0::nat"
      and dirs = "[''policies/kubernetes'', ''policies/gcp'']"
      and before = "[''policies/kubernetes'']" and dir = "''policies/gcp''" and after = "[]"
      and pre = "[\<lparr>path = ''policies/gcp'', isDir = True, walkErr = None\<rparr>,
              \<lparr>path = ''policies/gcp/iam.rego'', isDir = False, walkErr = None\<rparr>]"
      and ent = "\<lparr>path = ''policies/gcp/broken.rego'', isDir = False, walkErr = None\<rparr>"
      and post = "[\<lparr>path = ''policies/gcp/storage.rego'', isDir = False, walkErr = None\<rparr>]"
      and perr = "Foreign ''rego_parse_error: unexpected eof token''", OF 1 2 3] 4 5
  show ?thesis by simp
qed

section \<open>Evaluating every package\<close>

lemma fold_update_keys:
  "fst ` set (fold (\<lambda>(file, m). AList.update (g m) True) ms acc) =
     fst ` set acc \<union> (\<lambda>(file, m). g m) ` set ms"
proof (induction ms arbitrary: acc)
  case Nil
  show ?case by simp
next
  case (Cons x ms)
  obtain name m where x: "x = (name, m)" by (cases x)
  show ?case
    by (simp add: x Cons.IH AList.dom_update)
qed

lemma fold_update_distinct:
  "distinct (map fst acc) \<Longrightarrow>
     distinct (map fst (fold (\<lambda>(file, m). AList.update (g m) True) ms acc))"
proof (induction ms arbitrary: acc)
  case Nil
  then show ?case by simp
next
  case (Cons x ms)
  obtain name m where x: "x = (name, m)" by (cases x)
  show ?case
    using Cons.prems by (simp add: x Cons.IH AList.distinct_update)
qed

lemma packagePaths_keys:
  "set (map fst (packagePaths ms)) = (\<lambda>(file, m). Join (Package_Path m) ''.'') ` set ms"
  using fold_update_keys [of "\<lambda>m. Join (Package_Path m) ''.''" ms "[]"]
  by (simp add: packagePaths_def)

lemma packagePaths_distinct: "distinct (map fst (packagePaths ms))"
  using fold_update_distinct [of "[]" "\<lambda>m. Join (Package_Path m) ''.''" ms]
  by (simp add: packagePaths_def)

lemma EvaluateAll_loop_all_ok:
  assumes "read_only Eval"
  shows "\<forall>p\<in>set ps. \<exists>r. fst (Evaluate Eval e p input) = Returns r \<Longrightarrow>
     \<exists>rs. EvaluateAll_loop Eval input ps e results called = (Returns (results @ rs), e, called @ ps)
        \<and> map Returns rs = map (\<lambda>p. fst (Evaluate Eval e p input)) ps"
proof (induction ps arbitrary: results called)
  case Nil
  show ?case by simp
next
  case (Cons p ps)
  then obtain r where r: "fst (Evaluate Eval e p input) = Returns r" by auto
  then have ev: "Evaluate Eval e p input = (Returns r, e)"
    using Evaluate_read_only [OF assms, of e p input] by (cases "Evaluate Eval e p input") simp
  from Cons.prems have "\<forall>q\<in>set ps. \<exists>r. fst (Evaluate Eval e q input) = Returns r" by simp
  from Cons.IH [OF this, of "results @ [r]" "called @ [p]"]
  obtain rs where rs:
    "EvaluateAll_loop Eval input ps e (results @ [r]) (called @ [p]) =
       (Returns ((results @ [r]) @ rs), e, (called @ [p]) @ ps)"
    "map Returns rs = map (\<lambda>p. fst (Evaluate Eval e p input)) ps"
    by blast
  have "EvaluateAll_loop Eval input (p # ps) e results called =
          (Returns (results @ (r # rs)), e, called @ (p # ps))"
    using ev rs(1) by simp
  moreover have "map Returns (r # rs) = map (\<lambda>p. fst (Evaluate Eval e p input)) (p # ps)"
    using r rs(2) by simp
  ultimately show ?case by blast
qed

lemma EvaluateAll_loop_first_failure:
  assumes "read_only Eval"
    and "fst (Evaluate Eval e p input) = Fails err"
  shows "\<forall>q\<in>set ps. \<exists>r. fst (Evaluate Eval e q input) = Returns r \<Longrightarrow>
     EvaluateAll_loop Eval input (ps @ p # qs) e results called =
       (Fails (Errorf (''failed to evaluate package '' @ p) err), e, called @ ps @ [p])"
proof (induction ps arbitrary: results called)
  case Nil
  have "Evaluate Eval e p input = (Fails err, e)"
    using assms(2) Evaluate_read_only [OF assms(1), of e p input]
    by (cases "Evaluate Eval e p input") simp
  then show ?case by simp
next
  case (Cons q ps)
  then obtain r where r: "fst (Evaluate Eval e q input) = Returns r" by auto
  then have ev: "Evaluate Eval e q input = (Returns r, e)"
    using Evaluate_read_only [OF assms(1), of e q input] by (cases "Evaluate Eval e q input") simp
  from Cons.prems have "\<forall>q\<in>set ps. \<exists>r. fst (Evaluate Eval e q input) = Returns r" by simp
  from Cons.IH [OF this, of "results @ [r]" "called @ [q]"] ev
  show ?case by simp
qed

text \<open>
  Claim C7, as the code has it: \<^verbatim>\<open>EvaluateAll\<close> visits the distinct package paths of
  the loaded modules, each once, in the order of the map iteration, and calls
  \<^verbatim>\<open>Evaluate\<close> with the same input on each. When every call returns, it returns one
  result for each package, in that order. At the first call that returns an error it
  stops: it returns that error, wrapped with the name of the package, and no result,
  and the packages after it are not evaluated.
\<close>

theorem EvaluateAll_stops_at_first_error:
  assumes "read_only Eval" and "visits_each_key_once range_order"
  shows "distinct (range_order (map fst (packagePaths (modules e)))) \<and>
     set (range_order (map fst (packagePaths (modules e)))) =
       (\<lambda>(file, m). Join (Package_Path m) ''.'') ` set (modules e) \<and>
     ((\<forall>p\<in>set (range_order (map fst (packagePaths (modules e)))).
          \<exists>r. fst (Evaluate Eval e p input) = Returns r) \<longrightarrow>
        (\<exists>rs. EvaluateAll range_order Eval e input =
                 (Returns rs, e, range_order (map fst (packagePaths (modules e)))) \<and>
              map Returns rs =
                map (\<lambda>p. fst (Evaluate Eval e p input))
                  (range_order (map fst (packagePaths (modules e)))))) \<and>
     (\<forall>ps p qs err.
        range_order (map fst (packagePaths (modules e))) = ps @ p # qs \<and>
        (\<forall>q\<in>set ps. \<exists>r. fst (Evaluate Eval e q input) = Returns r) \<and>
        fst (Evaluate Eval e p input) = Fails err \<longrightarrow>
        EvaluateAll range_order Eval e input =
          (Fails (Errorf (''failed to evaluate package '' @ p) err), e, ps @ [p]))"
proof -
  let ?order = "range_order (map fst (packagePaths (modules e)))"
  have d: "distinct ?order" and s: "set ?order = set (map fst (packagePaths (modules e)))"
    using assms(2) packagePaths_distinct [of "modules e"]
    unfolding visits_each_key_once_def by blast+
  have ok: "(\<forall>p\<in>set ?order. \<exists>r. fst (Evaluate Eval e p input) = Returns r) \<longrightarrow>
        (\<exists>rs. EvaluateAll range_order Eval e input = (Returns rs, e, ?order) \<and>
              map Returns rs = map (\<lambda>p. fst (Evaluate Eval e p input)) ?order)"
    using EvaluateAll_loop_all_ok [OF assms(1), of ?order e input "[]" "[]"]
    by (simp add: EvaluateAll_def)
  have bad: "\<forall>ps p qs err.
        ?order = ps @ p # qs \<and>
        (\<forall>q\<in>set ps. \<exists>r. fst (Evaluate Eval e q input) = Returns r) \<and>
        fst (Evaluate Eval e p input) = Fails err \<longrightarrow>
        EvaluateAll range_order Eval e input =
          (Fails (Errorf (''failed to evaluate package '' @ p) err), e, ps @ [p])"
  proof (intro allI impI)
    fix ps p qs err
    assume a: "?order = ps @ p # qs \<and>
        (\<forall>q\<in>set ps. \<exists>r. fst (Evaluate Eval e q input) = Returns r) \<and>
        fst (Evaluate Eval e p input) = Fails err"
    then have "EvaluateAll_loop Eval input (ps @ p # qs) e [] [] =
       (Fails (Errorf (''failed to evaluate package '' @ p) err), e, [] @ ps @ [p])"
      using EvaluateAll_loop_first_failure [OF assms(1), of e p input err ps qs "[]" "[]"]
      by blast
    with a show "EvaluateAll range_order Eval e input =
          (Fails (Errorf (''failed to evaluate package '' @ p) err), e, ps @ [p])"
      by (simp add: EvaluateAll_def)
  qed
  from d s ok bad show ?thesis
    by (simp only: packagePaths_keys) 
qed


lemma visits_each_key_once_in_key_order: "visits_each_key_once in_key_order"
  by (simp add: visits_each_key_once_def in_key_order_def)

theorem EvaluateAll_stops_at_first_error_witness:
  "EvaluateAll in_key_order sample_Eval sample_evaluator () =
     (Fails (Errorf ''failed to evaluate package kubernetes.admission.secret''
               (Errorf ''evaluation failed'' (Foreign ''eval_internal_error''))),
      sample_evaluator, [''kubernetes.admission.pod'', ''kubernetes.admission.service'',
                         ''kubernetes.admission.secret'']) \<and>
   (\<exists>rs. EvaluateAll in_key_order sample_Eval sound_evaluator () =
           (Returns rs, sound_evaluator,
            [''kubernetes.admission.pod'', ''kubernetes.admission.service'',
             ''kubernetes.admission.job'']))"
proof -
  have order: "in_key_order (map fst (packagePaths (modules sample_evaluator))) =
      [''kubernetes.admission.pod'', ''kubernetes.admission.service''] @
      ''kubernetes.admission.secret'' # [''kubernetes.admission.job'']"
    by code_simp
  have pod: "fst (Evaluate sample_Eval sample_evaluator ''kubernetes.admission.pod'' ()) =
      Returns \<lparr>Violations =
          [\<lparr>Message = ''b'', Severity = ''ERROR'', Policy = ''kubernetes.admission.pod''\<rparr>,
           \<lparr>Message = ''a'', Severity = ''ERROR'', Policy = ''kubernetes.admission.pod''\<rparr>],
        Warnings = [\<lparr>Message = ''w'', Severity = ''WARNING'',
                     Policy = ''kubernetes.admission.pod''\<rparr>],
        PassCount = 0, FailCount = 2, WarnCount = 1\<rparr>"
    by code_simp
  have service: "fst (Evaluate sample_Eval sample_evaluator ''kubernetes.admission.service'' ()) =
      Returns \<lparr>Violations = [],
        Warnings = [\<lparr>Message = ''w'', Severity = ''WARNING'',
                     Policy = ''kubernetes.admission.service''\<rparr>],
        PassCount = 0, FailCount = 0, WarnCount = 1\<rparr>"
    by code_simp
  have secret: "fst (Evaluate sample_Eval sample_evaluator ''kubernetes.admission.secret'' ()) =
      Fails (Errorf ''evaluation failed'' (Foreign ''eval_internal_error''))"
    by code_simp
  have before: "\<forall>q\<in>set [''kubernetes.admission.pod'', ''kubernetes.admission.service''].
      \<exists>r. fst (Evaluate sample_Eval sample_evaluator q ()) = Returns r"
    using pod service by simp
  have sound_order: "in_key_order (map fst (packagePaths (modules sound_evaluator))) =
      [''kubernetes.admission.pod'', ''kubernetes.admission.service'',
       ''kubernetes.admission.job'']"
    by code_simp
  have sound_pod: "fst (Evaluate sample_Eval sound_evaluator ''kubernetes.admission.pod'' ()) =
      Returns \<lparr>Violations =
          [\<lparr>Message = ''b'', Severity = ''ERROR'', Policy = ''kubernetes.admission.pod''\<rparr>,
           \<lparr>Message = ''a'', Severity = ''ERROR'', Policy = ''kubernetes.admission.pod''\<rparr>],
        Warnings = [\<lparr>Message = ''w'', Severity = ''WARNING'',
                     Policy = ''kubernetes.admission.pod''\<rparr>],
        PassCount = 0, FailCount = 2, WarnCount = 1\<rparr>"
    by code_simp
  have sound_service:
    "fst (Evaluate sample_Eval sound_evaluator ''kubernetes.admission.service'' ()) =
      Returns \<lparr>Violations = [],
        Warnings = [\<lparr>Message = ''w'', Severity = ''WARNING'',
                     Policy = ''kubernetes.admission.service''\<rparr>],
        PassCount = 0, FailCount = 0, WarnCount = 1\<rparr>"
    by code_simp
  have sound_job: "fst (Evaluate sample_Eval sound_evaluator ''kubernetes.admission.job'' ()) =
      Returns \<lparr>Violations = [], Warnings = [], PassCount = 0, FailCount = 0, WarnCount = 0\<rparr>"
    by code_simp
  have all_ok: "\<forall>p\<in>set (in_key_order (map fst (packagePaths (modules sound_evaluator)))).
      \<exists>r. fst (Evaluate sample_Eval sound_evaluator p ()) = Returns r"
    using sound_pod sound_service sound_job by (simp add: sound_order)
  have stops: "EvaluateAll in_key_order sample_Eval sample_evaluator () =
     (Fails (Errorf (''failed to evaluate package '' @ ''kubernetes.admission.secret'')
               (Errorf ''evaluation failed'' (Foreign ''eval_internal_error''))),
      sample_evaluator, [''kubernetes.admission.pod'', ''kubernetes.admission.service''] @
                         [''kubernetes.admission.secret''])"
    using EvaluateAll_stops_at_first_error [where Eval = sample_Eval
        and range_order = in_key_order and e = sample_evaluator and input = "()",
        OF read_only_sample_Eval visits_each_key_once_in_key_order]
      order before secret
    by blast
  have runs: "\<exists>rs. EvaluateAll in_key_order sample_Eval sound_evaluator () =
           (Returns rs, sound_evaluator,
            in_key_order (map fst (packagePaths (modules sound_evaluator))))"
    using EvaluateAll_stops_at_first_error [where Eval = sample_Eval
        and range_order = in_key_order and e = sound_evaluator and input = "()",
        OF read_only_sample_Eval visits_each_key_once_in_key_order]
      all_ok
    by blast
  from stops runs show ?thesis by (simp add: sound_order)
qed

text \<open>
  Against claim C7 as stated: the sample set declares four packages, the third of
  which raises. \<^verbatim>\<open>EvaluateAll\<close> returns the error of the third and no result, and the
  fourth package, which \<^verbatim>\<open>Evaluate\<close> would handle without error, is never evaluated.
\<close>

theorem EvaluateAll_abort_counterexample:
  "map fst (packagePaths (modules sample_evaluator)) =
     [''kubernetes.admission.pod'', ''kubernetes.admission.service'',
      ''kubernetes.admission.secret'', ''kubernetes.admission.job''] \<and>
   fst (Evaluate sample_Eval sample_evaluator ''kubernetes.admission.job'' ()) =
     Returns \<lparr>Violations = [], Warnings = [], PassCount = 0, FailCount = 0, WarnCount = 0\<rparr> \<and>
   EvaluateAll in_key_order sample_Eval sample_evaluator () =
     (Fails (Errorf ''failed to evaluate package kubernetes.admission.secret''
               (Errorf ''evaluation failed'' (Foreign ''eval_internal_error''))),
      sample_evaluator, [''kubernetes.admission.pod'', ''kubernetes.admission.service'',
                         ''kubernetes.admission.secret''])"
  by code_simp

end
